theory Spec2Isabelle
  imports Main
begin

section \<open>The extractor of \<open>scripts/extract_arxiv.py\<close>\<close>

text \<open>
  The script reads a file of newline-delimited JSON line by line, parses each of the
  first \<open>n\<close> lines, collects the values that parse, and writes them as one JSON array.

  Python's \<open>json\<close> module is a library, not code of the script. The theory takes
  \<open>json.loads\<close> as the parameter \<open>loads\<close>, over an arbitrary type \<open>'j\<close> of parsed JSON
  values: it returns \<open>Inr v\<close> for the parsed value, or \<open>Inl e\<close> where \<open>e\<close> is the text of
  the \<open>json.JSONDecodeError\<close> it raises (the exception the script catches). Of
  \<open>json.dump(objects, outfile, indent=2, ensure_ascii=False)\<close> the theory models the
  array: the encoder hands the text to \<open>outfile.write\<close> chunk by chunk, and the encoding
  of one element is the parameter \<open>encode\<close>.

  The text of a file is a \<open>pystr\<close>, the list of its code points, so that
  \<open>str.strip\<close> and the UTF-8 encoding of the output see every character. Paths and
  error messages are \<open>string\<close>s, one \<open>char\<close> per code point below 256.

  The errors of the model are the ones the script meets by its own text: a line that
  \<open>json.loads\<close> rejects with \<open>JSONDecodeError\<close>, caught in the loop; a file that
  \<open>open\<close> cannot open, which ends the run; and a chunk that the output file, opened with
  \<open>encoding='utf-8'\<close>, cannot encode, which ends the run with what was written before
  it left in the file. The function has no \<open>return\<close> statement, so a run that completes
  hands \<open>None\<close> to its caller.
\<close>

subsection \<open>Strings: \<open>str.strip\<close>, \<open>str(int)\<close>, the lines of a text file\<close>

type_synonym pystr = "int list"

definition lit :: "string \<Rightarrow> pystr" where
  \<comment> \<open>the code points of a literal\<close>
  "lit s = map of_char s"

definition isspace :: "int \<Rightarrow> bool" where
  \<comment> \<open>\<open>str.isspace\<close> on one code point: TAB, LF, VT, FF, CR, FS, GS, RS, US, space, NEL,
      NBSP, U+1680, U+2000 to U+200A, U+2028, U+2029, U+202F, U+205F and U+3000.\<close>
  "isspace c \<longleftrightarrow>
     (9 \<le> c \<and> c \<le> 13) \<or> (28 \<le> c \<and> c \<le> 32) \<or> c = 133 \<or> c = 160 \<or>
     c = 5760 \<or> (8192 \<le> c \<and> c \<le> 8202) \<or> c = 8232 \<or> c = 8233 \<or>
     c = 8239 \<or> c = 8287 \<or> c = 12288"

definition strip :: "pystr \<Rightarrow> pystr" where
  \<comment> \<open>\<open>line.strip()\<close>: leading and trailing whitespace removed.\<close>
  "strip s = rev (dropWhile isspace (rev (dropWhile isspace s)))"

fun str_nat :: "nat \<Rightarrow> string" where
  "str_nat k = (if k < 10 then [''0123456789'' ! k]
                else str_nat (k div 10) @ [''0123456789'' ! (k mod 10)])"

definition str_int :: "int \<Rightarrow> string" where
  \<comment> \<open>\<open>str(k)\<close> of a Python integer, as an f-string formats it.\<close>
  "str_int k = (if k < 0 then CHR ''-'' # str_nat (nat (- k)) else str_nat (nat k))"

fun text_lines :: "pystr \<Rightarrow> pystr list" where
  \<comment> \<open>The lines that iterating over a file opened with \<open>open(path, 'r')\<close> yields: a line
      ends after LF (10), CR (13) or CR LF, each handed over as LF (universal newlines),
      and the terminator stays on the line; a last line may have none.\<close>
  "text_lines [] = []"
| "text_lines (c # cs) =
     (if c = 10 then [10] # text_lines cs
      else if c = 13 then
        (case cs of
           [] \<Rightarrow> [[10]]
         | d # ds \<Rightarrow> if d = 10 then [10] # text_lines ds
                     else [10] # text_lines cs)
      else (case text_lines cs of
              [] \<Rightarrow> [[c]]
            | l # ls \<Rightarrow> (c # l) # ls))"

subsection \<open>The file system and the status channel\<close>

datatype error = OSError string | UnicodeEncodeError
  \<comment> \<open>\<open>OSError\<close>: what \<open>open\<close> raises when a path cannot be opened, with the path;
      \<open>UnicodeEncodeError\<close>: what writing to the output file raises on a text that UTF-8
      cannot encode\<close>

record filesystem =
  files :: "string \<rightharpoonup> pystr"
  read_denied :: "string \<Rightarrow> bool"
  write_denied :: "string \<Rightarrow> bool"

definition open_read :: "filesystem \<Rightarrow> string \<Rightarrow> error + pystr" where
  \<comment> \<open>\<open>open(path, 'r', encoding='utf-8')\<close>: the text of the file, or the error raised
      when the file is missing or may not be read.\<close>
  "open_read fs path =
     (case files fs path of
        None \<Rightarrow> Inl (OSError path)
      | Some text \<Rightarrow> if read_denied fs path then Inl (OSError path) else Inr text)"

definition open_write :: "filesystem \<Rightarrow> string \<Rightarrow> error + filesystem" where
  \<comment> \<open>\<open>open(path, 'w', encoding='utf-8')\<close>: the file is created or truncated, or the
      error is raised and nothing changes.\<close>
  "open_write fs path =
     (if write_denied fs path then Inl (OSError path)
      else Inr (fs\<lparr>files := (files fs)(path \<mapsto> [])\<rparr>))"

definition write_text :: "filesystem \<Rightarrow> string \<Rightarrow> pystr \<Rightarrow> filesystem" where
  \<comment> \<open>what the file just opened for writing holds once it is closed\<close>
  "write_text fs path text =
     fs\<lparr>files := (files fs)(path \<mapsto>
        (case files fs path of None \<Rightarrow> text | Some old \<Rightarrow> old @ text))\<rparr>"

datatype message =
    Extracting int string
  | Warning nat string
  | Processed nat
  | Writing nat string
  | Done nat string

fun render :: "message \<Rightarrow> string" where
  \<comment> \<open>the line each \<open>print\<close> of the script writes\<close>
  "render (Extracting n input_file) =
     ''Extracting first '' @ str_int n @ '' JSON objects from '' @ input_file @ ''...''"
| "render (Warning k e) =
     ''Warning: Failed to parse line '' @ str_nat k @ '': '' @ e"
| "render (Processed k) =
     ''  Processed '' @ str_nat k @ '' objects...''"
| "render (Writing k output_file) =
     ''Writing '' @ str_nat k @ '' objects to '' @ output_file @ ''...''"
| "render (Done k output_file) =
     ''Done! Extracted '' @ str_nat k @ '' objects to '' @ output_file"

subsection \<open>\<open>json.dump\<close> of a list into a UTF-8 file\<close>

datatype item = Scalar pystr | Container "pystr list"
  \<comment> \<open>how the encoder yields one element of the array: a string, number or constant as
      one text, joined to the pending separator in one chunk; an array or object as its
      own chunks, after the separator's chunk\<close>

fun item_chunks :: "('j \<Rightarrow> item) \<Rightarrow> pystr \<Rightarrow> 'j list \<Rightarrow> pystr list" where
  \<comment> \<open>the chunks for the elements still to come, \<open>buf\<close> the pending separator, and the
      closing of the array\<close>
  "item_chunks encode buf [] = [lit ''\<newline>'', lit '']'']"
| "item_chunks encode buf (v # rest) =
     (case encode v of
        Scalar t \<Rightarrow> [buf @ t]
      | Container chunks \<Rightarrow> buf # chunks)
     @ item_chunks encode (lit '',\<newline>  '') rest"

definition json_chunks :: "('j \<Rightarrow> item) \<Rightarrow> 'j list \<Rightarrow> pystr list" where
  \<comment> \<open>the chunks the encoder yields for a list, with \<open>indent=2\<close>\<close>
  "json_chunks encode xs =
     (if xs = [] then [lit ''[]''] else item_chunks encode (lit ''[\<newline>  '') xs)"

definition encodable :: "pystr \<Rightarrow> bool" where
  \<comment> \<open>UTF-8 encodes every code point but the surrogates U+D800 to U+DFFF\<close>
  "encodable chunk = list_all (\<lambda>c. c < 55296 \<or> 57343 < c) chunk"

fun write_chunks :: "pystr list \<Rightarrow> pystr \<Rightarrow> pystr \<times> error option" where
  \<comment> \<open>\<open>for chunk in iterable: fp.write(chunk)\<close>: the text that reached the file, and the
      error of the first chunk that could not be encoded\<close>
  "write_chunks [] written = (written, None)"
| "write_chunks (chunk # rest) written =
     (if encodable chunk then write_chunks rest (written @ chunk)
      else (written, Some UnicodeEncodeError))"

definition json_dump :: "('j \<Rightarrow> item) \<Rightarrow> 'j list \<Rightarrow> pystr \<times> error option" where
  "json_dump encode xs = write_chunks (json_chunks encode xs) []"

subsection \<open>\<open>extract_first_n_objects\<close>\<close>

record 'j scan_state =
  objects :: "'j list"
  printed :: "message list"

fun scan :: "(pystr \<Rightarrow> string + 'j) \<Rightarrow> int \<Rightarrow> nat \<Rightarrow> pystr list
               \<Rightarrow> 'j scan_state \<Rightarrow> 'j scan_state" where
  \<comment> \<open>the \<open>for i, line in enumerate(infile)\<close> loop, from index \<open>i\<close> on\<close>
  "scan loads n i [] st = st"
| "scan loads n i (line # rest) st =
     (if int i \<ge> n then st
      else
        (case loads (strip line) of
           Inr obj \<Rightarrow>
             let st1 = st\<lparr>objects := objects st @ [obj]\<rparr>;
                 st2 = (if (i + 1) mod 100 = 0
                        then st1\<lparr>printed := printed st1 @ [Processed (i + 1)]\<rparr>
                        else st1)
             in scan loads n (i + 1) rest st2
         | Inl e \<Rightarrow>
             scan loads n (i + 1) rest
               (st\<lparr>printed := printed st @ [Warning (i + 1) e]\<rparr>)))"

datatype pyvalue = PyNone | PyInt int
  \<comment> \<open>the values a call of the function could hand back to its caller\<close>

record outcome =
  result :: "error + pyvalue"
  filesys :: filesystem
  stdout :: "message list"

definition extract_first_n_objects ::
  "(pystr \<Rightarrow> string + 'j) \<Rightarrow> ('j \<Rightarrow> item) \<Rightarrow> filesystem
     \<Rightarrow> string \<Rightarrow> string \<Rightarrow> int \<Rightarrow> outcome" where
  "extract_first_n_objects loads encode fs input_file output_file n =
     (let st0 = \<lparr>objects = [], printed = [Extracting n input_file]\<rparr> in
      case open_read fs input_file of
        Inl err \<Rightarrow> \<lparr>result = Inl err, filesys = fs, stdout = printed st0\<rparr>
      | Inr text \<Rightarrow>
          let st = scan loads n 0 (text_lines text) st0;
              out1 = printed st @ [Writing (length (objects st)) output_file]
          in (case open_write fs output_file of
                Inl err \<Rightarrow> \<lparr>result = Inl err, filesys = fs, stdout = out1\<rparr>
              | Inr fs1 \<Rightarrow>
                  (case json_dump encode (objects st) of
                     (written, Some err) \<Rightarrow>
                       \<lparr>result = Inl err,
                        filesys = write_text fs1 output_file written,
                        stdout = out1\<rparr>
                   | (written, None) \<Rightarrow>
                       \<lparr>result = Inr PyNone,
                        filesys = write_text fs1 output_file written,
                        stdout = out1 @ [Done (length (objects st)) output_file]\<rparr>)))"

subsection \<open>Notions of the specification\<close>

definition line_value :: "(pystr \<Rightarrow> string + 'j) \<Rightarrow> pystr \<Rightarrow> 'j option" where
  \<comment> \<open>the JSON value of a line that parses successfully once stripped\<close>
  "line_value loads line = (case loads (strip line) of Inr v \<Rightarrow> Some v | Inl e \<Rightarrow> None)"

definition parsed_values :: "(pystr \<Rightarrow> string + 'j) \<Rightarrow> pystr list \<Rightarrow> 'j list" where
  \<comment> \<open>the values of the lines that parse successfully, in the order of the lines\<close>
  "parsed_values loads lines = List.map_filter (line_value loads) lines"

definition json_text :: "('j \<Rightarrow> item) \<Rightarrow> 'j list \<Rightarrow> pystr" where
  \<comment> \<open>the JSON array of a list of values: all the chunks of its encoding\<close>
  "json_text encode xs = concat (json_chunks encode xs)"

definition dump_completes :: "('j \<Rightarrow> item) \<Rightarrow> 'j list \<Rightarrow> bool" where
  \<comment> \<open>every chunk of the array can be encoded, so that writing it raises nothing\<close>
  "dump_completes encode xs = list_all encodable (json_chunks encode xs)"

definition line_messages :: "(pystr \<Rightarrow> string + 'j) \<Rightarrow> nat \<Rightarrow> pystr \<Rightarrow> message list" where
  \<comment> \<open>what the loop body prints for the line of 0-based index \<open>i\<close>\<close>
  "line_messages loads i line =
     (case loads (strip line) of
        Inr v \<Rightarrow> if (i + 1) mod 100 = 0 then [Processed (i + 1)] else []
      | Inl e \<Rightarrow> [Warning (i + 1) e])"

definition scan_messages :: "(pystr \<Rightarrow> string + 'j) \<Rightarrow> nat \<Rightarrow> pystr list \<Rightarrow> message list" where
  \<comment> \<open>what the loop prints for consecutive lines, the first of index \<open>i\<close>\<close>
  "scan_messages loads i lines =
     concat (map (\<lambda>(k, line). line_messages loads k line) (List.enumerate i lines))"

fun is_warning :: "message \<Rightarrow> bool" where
  "is_warning (Warning k e) = True"
| "is_warning m = False"


fun warning_line :: "message \<Rightarrow> nat option" where
  \<comment> \<open>the 1-based line number a warning names\<close>
  "warning_line (Warning k e) = Some k"
| "warning_line m = None"

subsection \<open>An instance of the library parameters for the examples\<close>

datatype example_value = Num nat | Str pystr
  \<comment> \<open>a non-negative integer; a string, by its code points\<close>

definition surrogate_document :: pystr where
  \<comment> \<open>the eight characters of the JSON string whose one character is written as the
      escape of U+D800\<close>
  "surrogate_document = lit (CHR 0x22 # CHR 0x5C # ''ud800'' @ [CHR 0x22])"

definition example_loads :: "pystr \<Rightarrow> string + example_value" where
  \<comment> \<open>a parser that accepts the documents made of decimal digits and the document
      \<open>surrogate_document\<close>, and rejects every other document; on the documents of the
      examples it answers as \<open>json.loads\<close> does\<close>
  "example_loads s =
     (if s = [] then Inl ''Expecting value: line 1 column 1 (char 0)''
      else if s = surrogate_document then Inr (Str [55296])
      else if list_all (\<lambda>c. 48 \<le> c \<and> c \<le> 57) s
      then Inr (Num (nat (foldl (\<lambda>a c. 10 * a + (c - 48)) 0 s)))
      else Inl ''Expecting value: line 1 column 1 (char 0)'')"

fun example_encode :: "example_value \<Rightarrow> item" where
  \<comment> \<open>an integer by its digits; a string between quotes, its characters as they are
      (\<open>ensure_ascii=False\<close>)\<close>
  "example_encode (Num k) = Scalar (lit (str_nat k))"
| "example_encode (Str s) = Scalar (34 # s @ [34])"

definition example_text :: pystr where
  \<comment> \<open>five lines: \<open>1\<close>, the malformed \<open>x\<close>, a blank line, \<open>22\<close> and \<open>5\<close>\<close>
  "example_text = lit ''1\<newline>x\<newline>\<newline>22\<newline>5\<newline>''"



definition surrogate_text :: pystr where
  \<comment> \<open>two lines: \<open>5\<close> and \<open>surrogate_document\<close>\<close>
  "surrogate_text = lit ''5\<newline>'' @ surrogate_document @ lit ''\<newline>''"

definition blank_text :: pystr where
  \<comment> \<open>three lines: \<open>1\<close>; a line of an ideographic space, a no-break space and a tab;
      \<open>22\<close>\<close>
  "blank_text = lit ''1\<newline>'' @ [12288, 160, 9, 10] @ lit ''22\<newline>''"

definition example_fs :: "pystr \<Rightarrow> filesystem" where
  \<comment> \<open>a file system holding the one readable file \<open>in.jsonl\<close> with the given text\<close>
  "example_fs text =
     \<lparr>files = [''in.jsonl'' \<mapsto> text], read_denied = (\<lambda>p. False), write_denied = (\<lambda>p. False)\<rparr>"

section \<open>The loop\<close>

lemma scan_char:
  "scan loads n i lines st =
     \<lparr>objects = objects st @ parsed_values loads (take (nat n - i) lines),
      printed = printed st @ scan_messages loads i (take (nat n - i) lines)\<rparr>"
proof (induction lines arbitrary: i st)
  case Nil
  show ?case by (simp add: parsed_values_def scan_messages_def)
next
  case (Cons line rest)
  show ?case
  proof (cases "int i \<ge> n")
    case True
    then have "nat n - i = 0" by simp
    with True show ?thesis
      by (simp add: parsed_values_def scan_messages_def)
  next
    case False
    then obtain m where m: "nat n - i = Suc m" and m': "nat n - Suc i = m"
      by (cases "nat n - i") auto
    show ?thesis
      using False
      by (cases "loads (strip line)")
         (simp_all add: Cons.IH m m' Let_def parsed_values_def scan_messages_def
            line_value_def line_messages_def)
  qed
qed

lemma enumerate_nth: "List.enumerate i xs = map (\<lambda>k. (i + k, xs ! k)) [0..<length xs]"
  by (rule nth_equalityI) (simp_all add: nth_enumerate_eq)

lemma scan_messages_nth:
  "scan_messages loads i ls = concat (map (\<lambda>k. line_messages loads (i + k) (ls ! k)) [0..<length ls])"
  by (simp add: scan_messages_def enumerate_nth comp_def)

lemma scan_messages_take:
  "scan_messages loads 0 (take m ls) =
     concat (map (\<lambda>k. line_messages loads k (ls ! k)) [0..<min m (length ls)])"
proof -
  have "map (\<lambda>k. line_messages loads k (take m ls ! k)) [0..<min m (length ls)]
        = map (\<lambda>k. line_messages loads k (ls ! k)) [0..<min m (length ls)]"
    by (rule map_cong) simp_all
  then show ?thesis
    by (simp only: scan_messages_nth length_take add_0 min.commute [of "length ls" m])
qed

lemma parsed_values_append:
  "parsed_values loads (xs @ ys) = parsed_values loads xs @ parsed_values loads ys"
  by (simp add: parsed_values_def List.map_filter_def)

lemma parsed_values_Cons:
  "parsed_values loads (x # xs) =
     (case loads (strip x) of Inr v \<Rightarrow> [v] | Inl e \<Rightarrow> []) @ parsed_values loads xs"
  by (simp add: parsed_values_def line_value_def split: sum.split)

lemma length_parsed_values:
  "length (parsed_values loads ls) = length (filter (\<lambda>l. line_value loads l \<noteq> None) ls)"
  by (simp add: parsed_values_def List.map_filter_def)

lemma warnings_line_messages:
  "filter is_warning (line_messages loads k l) =
     (case loads (strip l) of Inl e \<Rightarrow> [Warning (k + 1) e] | Inr v \<Rightarrow> [])"
  by (simp add: line_messages_def split: sum.split)


lemma numbered_line_messages:
  "filter (\<lambda>m. warning_line m = Some (Suc p)) (line_messages loads k l) =
     (if k = p then (case loads (strip l) of Inl e \<Rightarrow> [Warning (Suc p) e] | Inr v \<Rightarrow> []) else [])"
  by (auto simp add: line_messages_def split: sum.split)

lemma count_warnings:
  "length (filter is_warning (scan_messages loads i ls)) =
     length (filter (\<lambda>l. line_value loads l = None) ls)"
  by (induction ls arbitrary: i)
     (simp_all add: scan_messages_def line_messages_def line_value_def split: sum.split)


lemma slots_ok:
  "length (parsed_values loads ls) + length (filter is_warning (scan_messages loads i ls)) = length ls"
proof -
  have "length (filter (\<lambda>l. line_value loads l \<noteq> None) ls)
        + length (filter (\<lambda>l. \<not> line_value loads l \<noteq> None) ls) = length ls"
    by (rule sum_length_filter_compl)
  then show ?thesis
    by (simp add: length_parsed_values count_warnings)
qed

lemma parsed_values_split:
  assumes "p < length ls"
  shows "parsed_values loads ls =
         parsed_values loads (take p ls)
         @ (case loads (strip (ls ! p)) of Inr v \<Rightarrow> [v] | Inl e \<Rightarrow> [])
         @ parsed_values loads (drop (Suc p) ls)"
proof -
  have "parsed_values loads ls = parsed_values loads (take p ls @ ls ! p # drop (Suc p) ls)"
    using id_take_nth_drop [OF assms] by simp
  then show ?thesis
    by (simp only: parsed_values_append parsed_values_Cons)
qed

lemma parsed_values_index:
  assumes "p < length ls" and "line_value loads (ls ! p) = Some v"
  shows "length (parsed_values loads (take p ls)) < length (parsed_values loads ls)
         \<and> parsed_values loads ls ! length (parsed_values loads (take p ls)) = v"
proof -
  from assms(2) have "(case loads (strip (ls ! p)) of Inr v \<Rightarrow> [v] | Inl e \<Rightarrow> []) = [v]"
    by (simp add: line_value_def split: sum.splits)
  with parsed_values_split [OF assms(1), of loads]
  have "parsed_values loads ls =
        parsed_values loads (take p ls) @ v # parsed_values loads (drop (Suc p) ls)"
    by simp
  then show ?thesis
    by (simp add: nth_append)
qed

lemma parsed_values_skip:
  assumes "p < length ls" and "loads (strip (ls ! p)) = Inl e"
  shows "parsed_values loads ls = parsed_values loads (take p ls @ drop (Suc p) ls)"
  using parsed_values_split [OF assms(1), of loads] assms(2)
  by (simp add: parsed_values_append)

lemma strip_whitespace:
  assumes "list_all isspace s"
  shows "strip s = []"
proof -
  from assms have a: "dropWhile isspace s = []"
    by (simp add: list_all_iff)
  show ?thesis
    by (simp only: strip_def a rev.simps dropWhile.simps)
qed

section \<open>The write\<close>

lemma write_chunks_complete:
  "list_all encodable chunks \<Longrightarrow> write_chunks chunks written = (written @ concat chunks, None)"
  by (induction chunks arbitrary: written) simp_all

lemma write_chunks_broken:
  "\<not> list_all encodable chunks \<Longrightarrow> snd (write_chunks chunks written) = Some UnicodeEncodeError"
  by (induction chunks arbitrary: written) simp_all

lemma json_dump_complete:
  "dump_completes encode xs \<Longrightarrow> json_dump encode xs = (json_text encode xs, None)"
  by (simp add: dump_completes_def json_dump_def json_text_def write_chunks_complete)

lemma json_dump_broken:
  "\<not> dump_completes encode xs \<Longrightarrow>
     json_dump encode xs = (fst (json_dump encode xs), Some UnicodeEncodeError)"
  using write_chunks_broken [of "json_chunks encode xs" "[]"]
  by (simp add: dump_completes_def json_dump_def prod_eq_iff)

lemma empty_array: "dump_completes encode [] \<and> json_text encode [] = lit ''[]''"
  by (simp add: dump_completes_def json_text_def json_chunks_def encodable_def lit_def)

section \<open>The whole run\<close>

lemma extract_read:
  assumes "open_read fs input_file = Inr content"
  shows "extract_first_n_objects loads encode fs input_file output_file n =
     (let sample = parsed_values loads (take (nat n) (text_lines content));
          out1 = Extracting n input_file
                 # scan_messages loads 0 (take (nat n) (text_lines content))
                 @ [Writing (length sample) output_file]
      in if write_denied fs output_file
         then \<lparr>result = Inl (OSError output_file), filesys = fs, stdout = out1\<rparr>
         else if dump_completes encode sample
         then \<lparr>result = Inr PyNone,
               filesys = fs\<lparr>files := (files fs)(output_file \<mapsto> json_text encode sample)\<rparr>,
               stdout = out1 @ [Done (length sample) output_file]\<rparr>
         else \<lparr>result = Inl UnicodeEncodeError,
               filesys = fs\<lparr>files := (files fs)(output_file \<mapsto> fst (json_dump encode sample))\<rparr>,
               stdout = out1\<rparr>)"
proof (cases "write_denied fs output_file")
  case True
  with assms show ?thesis
    by (simp add: extract_first_n_objects_def scan_char open_write_def Let_def)
next
  case False
  note open_ok = this
  show ?thesis
  proof (cases "dump_completes encode (parsed_values loads (take (nat n) (text_lines content)))")
    case True
    with assms open_ok show ?thesis
      by (simp add: extract_first_n_objects_def scan_char open_write_def write_text_def Let_def
            json_dump_complete)
  next
    case False
    from json_dump_broken [OF False] obtain w
      where w: "json_dump encode (parsed_values loads (take (nat n) (text_lines content)))
                = (w, Some UnicodeEncodeError)"
      by blast
    with assms open_ok False show ?thesis
      by (simp add: extract_first_n_objects_def scan_char open_write_def write_text_def Let_def)
  qed
qed

lemma extract_ok:
  assumes "open_read fs input_file = Inr content" and "\<not> write_denied fs output_file"
    and "dump_completes encode (parsed_values loads (take (nat n) (text_lines content)))"
  shows "extract_first_n_objects loads encode fs input_file output_file n =
     \<lparr>result = Inr PyNone,
      filesys = fs\<lparr>files := (files fs)(output_file \<mapsto>
                   json_text encode (parsed_values loads (take (nat n) (text_lines content))))\<rparr>,
      stdout = Extracting n input_file
               # scan_messages loads 0 (take (nat n) (text_lines content))
               @ [Writing (length (parsed_values loads (take (nat n) (text_lines content)))) output_file,
                  Done (length (parsed_values loads (take (nat n) (text_lines content)))) output_file]\<rparr>"
  using assms(2,3) by (simp add: extract_read [OF assms(1)] Let_def)

lemma stdout_read:
  assumes "open_read fs input_file = Inr content"
  shows "stdout (extract_first_n_objects loads encode fs input_file output_file n) =
     Extracting n input_file
     # concat (map (\<lambda>k. line_messages loads k (text_lines content ! k))
                   [0..<min (nat n) (length (text_lines content))])
     @ Writing (length (parsed_values loads (take (nat n) (text_lines content)))) output_file
     # (if \<not> write_denied fs output_file
           \<and> dump_completes encode (parsed_values loads (take (nat n) (text_lines content)))
        then [Done (length (parsed_values loads (take (nat n) (text_lines content)))) output_file]
        else [])"
  by (simp add: extract_read [OF assms] Let_def scan_messages_take)

lemma file_ok:
  assumes "open_read fs input_file = Inr content" and "\<not> write_denied fs output_file"
    and "dump_completes encode (parsed_values loads (take (nat n) (text_lines content)))"
  shows "files (filesys (extract_first_n_objects loads encode fs input_file output_file n)) output_file
         = Some (json_text encode (parsed_values loads (take (nat n) (text_lines content))))"
  by (simp add: extract_ok [OF assms])

lemma warnings_read:
  assumes "open_read fs input_file = Inr content"
  shows "filter is_warning (stdout (extract_first_n_objects loads encode fs input_file output_file n)) =
     concat (map (\<lambda>i. case loads (strip (text_lines content ! i)) of
                          Inl e \<Rightarrow> [Warning (i + 1) e] | Inr v \<Rightarrow> [])
                 [0..<min (nat n) (length (text_lines content))])"
  by (simp add: stdout_read [OF assms] filter_concat comp_def warnings_line_messages)

lemma count_warnings_read:
  assumes "open_read fs input_file = Inr content"
  shows "length (filter is_warning (stdout (extract_first_n_objects loads encode fs input_file output_file n)))
         = length (filter is_warning (scan_messages loads 0 (take (nat n) (text_lines content))))"
  by (simp add: extract_read [OF assms] Let_def)


lemma numbered_read:
  assumes "open_read fs input_file = Inr content"
    and "p < length (text_lines content)" and "int p < n"
  shows "filter (\<lambda>m. warning_line m = Some (Suc p))
           (stdout (extract_first_n_objects loads encode fs input_file output_file n)) =
         (case loads (strip (text_lines content ! p)) of Inl e \<Rightarrow> [Warning (Suc p) e] | Inr v \<Rightarrow> [])"
proof -
  let ?N = "min (nat n) (length (text_lines content))"
  let ?g = "\<lambda>k. if k = p then (case loads (strip (text_lines content ! k)) of
                                 Inl e \<Rightarrow> [Warning (Suc p) e] | Inr v \<Rightarrow> []) else []"
  from assms(2,3) have p: "p < ?N" by simp
  then have split: "[0..<?N] = [0..<p] @ p # [Suc p..<?N]"
    by (metis upt_add_eq_append upt_conv_Cons le_add_diff_inverse less_imp_le_nat zero_le)
  have a: "concat (map ?g [0..<p]) = []" by simp
  have b: "concat (map ?g [Suc p..<?N]) = []" by simp
  have "concat (map ?g [0..<?N]) = ?g p"
    by (simp only: split map_append list.map concat_append concat.simps a b append_Nil append_Nil2)
  then show ?thesis
    by (simp add: stdout_read [OF assms(1)] filter_concat comp_def numbered_line_messages)
qed

lemma sample_read:
  "objects (scan loads n 0 lines \<lparr>objects = [], printed = out0\<rparr>)
     = parsed_values loads (take (nat n) lines)"
  by (simp add: scan_char)

lemma extract_error_sources:
  "(open_read fs input_file = Inl err
      \<longrightarrow> result (extract_first_n_objects loads encode fs input_file output_file n) = Inl err)
   \<and> (open_read fs input_file = Inr content \<and> write_denied fs output_file
      \<longrightarrow> result (extract_first_n_objects loads encode fs input_file output_file n)
            = Inl (OSError output_file))
   \<and> (open_read fs input_file = Inr content \<and> \<not> write_denied fs output_file
        \<and> \<not> dump_completes encode (parsed_values loads (take (nat n) (text_lines content)))
      \<longrightarrow> result (extract_first_n_objects loads encode fs input_file output_file n)
            = Inl UnicodeEncodeError)"
proof (cases "open_read fs input_file")
  case (Inl e)
  then show ?thesis
    by (simp add: extract_first_n_objects_def)
next
  case (Inr c)
  then show ?thesis
    by (simp add: extract_read [OF Inr] Let_def)
qed

section \<open>The claims of the specification\<close>

text \<open>
  In the theorems below the input file can be opened and holds \<open>content\<close>, whose lines are
  \<open>text_lines content\<close>. The Sample is the list \<open>objects\<close> that the loop leaves; the
  array of a list of values is \<open>json_text\<close>, and \<open>dump_completes\<close> says that writing
  it raises nothing.
\<close>

text \<open>
  Claim C1 says that for every input file the output array holds the values of the lines
  among the first \<open>n\<close> that parse. A value that parses need not be writable: the second
  of the two lines below parses to the string of the lone surrogate U+D800, which UTF-8
  cannot encode, so the write raises, the output file is left with the opening of the array
  and its first element, and the run ends before its last message.
\<close>

theorem unencodable_value_breaks_array:
  "parsed_values example_loads (take (nat 2) (text_lines surrogate_text)) = [Num 5, Str [55296]]
   \<and> files (filesys (extract_first_n_objects example_loads example_encode
                        (example_fs surrogate_text) ''in.jsonl'' ''out.json'' 2)) ''out.json''
       = Some (lit ''[\<newline>  5'')
   \<and> files (filesys (extract_first_n_objects example_loads example_encode
                        (example_fs surrogate_text) ''in.jsonl'' ''out.json'' 2)) ''out.json''
       \<noteq> Some (json_text example_encode [Num 5, Str [55296]])
   \<and> result (extract_first_n_objects example_loads example_encode
                (example_fs surrogate_text) ''in.jsonl'' ''out.json'' 2)
       = Inl UnicodeEncodeError
   \<and> last (stdout (extract_first_n_objects example_loads example_encode
                      (example_fs surrogate_text) ''in.jsonl'' ''out.json'' 2))
       = Writing 2 ''out.json''"
  by code_simp

text \<open>
  Claim C1, as the code has it. For every input file and every \<open>n\<close>, when the output file
  can be opened and the write completes, the array written to the output file holds
  exactly the JSON values of the lines among the first \<open>n\<close> that parse successfully, in
  their order, and the count of written records that the run reports is the number of
  those lines. (Proved for every integer \<open>n\<close>, negative ones included.)
\<close>

theorem extract_writes_parsed_first_n:
  assumes "open_read fs input_file = Inr content" and "\<not> write_denied fs output_file"
    and "dump_completes encode (parsed_values loads (take (nat n) (text_lines content)))"
  shows "let out = extract_first_n_objects loads encode fs input_file output_file n;
             first_n = take (nat n) (text_lines content);
             count = length (filter (\<lambda>line. line_value loads line \<noteq> None) first_n)
         in files (filesys out) output_file = Some (json_text encode (parsed_values loads first_n))
            \<and> length (parsed_values loads first_n) = count
            \<and> Writing count output_file \<in> set (stdout out)
            \<and> last (stdout out) = Done count output_file"
  by (simp add: Let_def file_ok [OF assms] stdout_read [OF assms(1)] assms(2,3)
        length_parsed_values)

theorem extract_writes_parsed_first_n_witness:
  "open_read (example_fs example_text) ''in.jsonl'' = Inr example_text
   \<and> \<not> write_denied (example_fs example_text) ''out.json''
   \<and> dump_completes example_encode
        (parsed_values example_loads (take (nat 4) (text_lines example_text)))
   \<and> files (filesys (extract_first_n_objects example_loads example_encode
                        (example_fs example_text) ''in.jsonl'' ''out.json'' 4)) ''out.json''
       = Some (lit ''[\<newline>  1,\<newline>  22\<newline>]'')
   \<and> last (stdout (extract_first_n_objects example_loads example_encode
                        (example_fs example_text) ''in.jsonl'' ''out.json'' 4))
       = Done 2 ''out.json''"
  using extract_writes_parsed_first_n [where fs = "example_fs example_text"
      and input_file = "''in.jsonl''" and content = example_text and output_file = "''out.json''"
      and loads = example_loads and encode = example_encode and n = 4]
  by code_simp




text \<open>
  Claim C3 says that the function returns the count of records written. The function has
  no \<open>return\<close> statement: with one record written, what it returns is not the
  integer 1.
\<close>

theorem count_is_not_returned:
  "files (filesys (extract_first_n_objects example_loads example_encode
                     (example_fs example_text) ''in.jsonl'' ''out.json'' 1)) ''out.json''
     = Some (json_text example_encode [Num 1])
   \<and> result (extract_first_n_objects example_loads example_encode
                (example_fs example_text) ''in.jsonl'' ''out.json'' 1)
     = Inr PyNone
   \<and> result (extract_first_n_objects example_loads example_encode
                (example_fs example_text) ''in.jsonl'' ''out.json'' 1)
     \<noteq> Inr (PyInt (int (length [Num 1])))"
  by code_simp

text \<open>
  Claim C3, as the code has it. A run that completes, the output file opened and the
  array written, returns \<open>None\<close>; the count of records written, which is the length of
  the array in the output file, is what its last two messages state.
\<close>

theorem extract_returns_none:
  assumes "open_read fs input_file = Inr content" and "\<not> write_denied fs output_file"
    and "dump_completes encode (parsed_values loads (take (nat n) (text_lines content)))"
  shows "let out = extract_first_n_objects loads encode fs input_file output_file n;
             sample = parsed_values loads (take (nat n) (text_lines content))
         in result out = Inr PyNone
            \<and> files (filesys out) output_file = Some (json_text encode sample)
            \<and> drop (length (stdout out) - 2) (stdout out)
                = [Writing (length sample) output_file, Done (length sample) output_file]"
  by (simp add: Let_def extract_ok [OF assms])

theorem extract_returns_none_witness:
  "open_read (example_fs example_text) ''in.jsonl'' = Inr example_text
   \<and> \<not> write_denied (example_fs example_text) ''out.json''
   \<and> dump_completes example_encode
        (parsed_values example_loads (take (nat 5) (text_lines example_text)))
   \<and> result (extract_first_n_objects example_loads example_encode
                (example_fs example_text) ''in.jsonl'' ''out.json'' 5) = Inr PyNone
   \<and> files (filesys (extract_first_n_objects example_loads example_encode
                (example_fs example_text) ''in.jsonl'' ''out.json'' 5)) ''out.json''
       = Some (json_text example_encode [Num 1, Num 22, Num 5])
   \<and> drop 3 (stdout (extract_first_n_objects example_loads example_encode
                (example_fs example_text) ''in.jsonl'' ''out.json'' 5))
       = [Writing 3 ''out.json'', Done 3 ''out.json'']"
  using extract_returns_none [where fs = "example_fs example_text"
      and input_file = "''in.jsonl''" and content = example_text and output_file = "''out.json''"
      and loads = example_loads and encode = example_encode and n = 5]
  by code_simp

text \<open>
  Claim C4. The cutoff counts lines read, not lines parsed: the Sample that the loop leaves
  is drawn from the first \<open>n\<close> lines only, each malformed line among them is answered by a
  warning, and the records of the Sample plus the warnings add up to the number of lines
  examined, which is \<open>n\<close> or the length of the file when that is less. The size of the
  Sample is what the run announces to write, and when the write completes the Sample is
  the array in the output file.
\<close>

theorem cutoff_counts_lines_read:
  assumes "open_read fs input_file = Inr content"
  shows "let out = extract_first_n_objects loads encode fs input_file output_file n;
             lines = text_lines content;
             sample = parsed_values loads (take (nat n) lines)
         in objects (scan loads n 0 lines \<lparr>objects = [], printed = [Extracting n input_file]\<rparr>)
              = sample
            \<and> length (filter is_warning (stdout out))
                = length (filter (\<lambda>line. line_value loads line = None) (take (nat n) lines))
            \<and> length sample + length (filter is_warning (stdout out))
                = min (nat n) (length lines)
            \<and> Writing (length sample) output_file \<in> set (stdout out)
            \<and> (\<not> write_denied fs output_file \<and> dump_completes encode sample
                 \<longrightarrow> files (filesys out) output_file = Some (json_text encode sample))"
proof -
  let ?out = "extract_first_n_objects loads encode fs input_file output_file n"
  let ?first = "take (nat n) (text_lines content)"
  have slots: "length (parsed_values loads ?first)
        + length (filter is_warning (scan_messages loads 0 ?first))
        = min (nat n) (length (text_lines content))"
    by (simp only: slots_ok length_take min.commute)
  have warned: "length (filter is_warning (stdout ?out))
        = length (filter (\<lambda>line. line_value loads line = None) ?first)"
    by (simp only: count_warnings_read [OF assms] count_warnings)
  have total: "length (parsed_values loads ?first) + length (filter is_warning (stdout ?out))
        = min (nat n) (length (text_lines content))"
    using slots by (simp only: count_warnings_read [OF assms])
  have announced: "Writing (length (parsed_values loads ?first)) output_file \<in> set (stdout ?out)"
    by (simp add: stdout_read [OF assms])
  have written: "\<not> write_denied fs output_file \<and> dump_completes encode (parsed_values loads ?first)
        \<longrightarrow> files (filesys ?out) output_file = Some (json_text encode (parsed_values loads ?first))"
    by (simp add: file_ok [OF assms])
  show ?thesis
    using warned total announced written
    by (simp only: Let_def sample_read simp_thms)
qed

theorem cutoff_counts_lines_read_witness:
  "open_read (example_fs example_text) ''in.jsonl'' = Inr example_text
   \<and> objects (scan example_loads 3 0 (text_lines example_text)
                \<lparr>objects = [], printed = [Extracting 3 ''in.jsonl'']\<rparr>) = [Num 1]
   \<and> length (filter is_warning (stdout (extract_first_n_objects example_loads example_encode
                (example_fs example_text) ''in.jsonl'' ''out.json'' 3))) = 2
   \<and> length (text_lines example_text) = 5
   \<and> Writing 1 ''out.json'' \<in> set (stdout (extract_first_n_objects example_loads example_encode
                (example_fs example_text) ''in.jsonl'' ''out.json'' 3))
   \<and> \<not> write_denied (example_fs example_text) ''out.json''
   \<and> dump_completes example_encode [Num 1]
   \<and> files (filesys (extract_first_n_objects example_loads example_encode
                (example_fs example_text) ''in.jsonl'' ''out.json'' 3)) ''out.json''
       = Some (json_text example_encode [Num 1])"
  using cutoff_counts_lines_read [where fs = "example_fs example_text"
      and input_file = "''in.jsonl''" and content = example_text and output_file = "''out.json''"
      and loads = example_loads and encode = example_encode and n = 3]
  by code_simp

text \<open>
  Claim C5 says that for any two lines among the first \<open>n\<close> that parse, their entries
  stand in the output array in the order of the lines. Both lines below parse, and the
  entry of the second never reaches the output file, since the write raises on it.
\<close>

theorem second_entry_never_written:
  "line_value example_loads (text_lines surrogate_text ! 0) = Some (Num 5)
   \<and> line_value example_loads (text_lines surrogate_text ! 1) = Some (Str [55296])
   \<and> files (filesys (extract_first_n_objects example_loads example_encode
                        (example_fs surrogate_text) ''in.jsonl'' ''out.json'' 2)) ''out.json''
       = Some (lit ''[\<newline>  5'')
   \<and> json_text example_encode [Num 5, Str [55296]]
       = lit ''[\<newline>  5,\<newline>  '' @ [34, 55296, 34] @ lit ''\<newline>]''
   \<and> \<not> dump_completes example_encode [Num 5, Str [55296]]"
  by code_simp

text \<open>
  Claim C5, as the code has it. When the output file can be opened and the write completes,
  order is preserved: of two lines at positions \<open>p1 < p2\<close> among the first \<open>n\<close> that
  both parse successfully, the value of the first stands in the written array before the
  value of the second. The place of a value in the array is the number of successfully
  parsed lines before its line.
\<close>

theorem order_preserved:
  assumes "open_read fs input_file = Inr content" and "\<not> write_denied fs output_file"
    and "dump_completes encode (parsed_values loads (take (nat n) (text_lines content)))"
    and "p1 < p2" and "p2 < length (text_lines content)" and "int p2 < n"
    and "line_value loads (text_lines content ! p1) = Some v1"
    and "line_value loads (text_lines content ! p2) = Some v2"
  shows "let out = extract_first_n_objects loads encode fs input_file output_file n;
             lines = text_lines content;
             sample = parsed_values loads (take (nat n) lines);
             j1 = length (parsed_values loads (take p1 lines));
             j2 = length (parsed_values loads (take p2 lines))
         in files (filesys out) output_file = Some (json_text encode sample)
            \<and> j1 < j2 \<and> j2 < length sample
            \<and> sample ! j1 = v1 \<and> sample ! j2 = v2"
proof -
  let ?lines = "text_lines content"
  let ?first = "take (nat n) ?lines"
  from assms(6) have pn: "p2 < nat n"
    by (simp add: zless_nat_eq_int_zless)
  from pn assms(4,5) have p2: "p2 < length ?first" and p1: "p1 < length ?first"
    and p12: "p1 < length (take p2 ?lines)"
    by simp_all
  from pn assms(4) have t2: "take p2 ?first = take p2 ?lines" and t1: "take p1 ?first = take p1 ?lines"
    and t12: "take p1 (take p2 ?lines) = take p1 ?lines"
    by (simp_all add: min_def)
  from p1 p2 p12 have n1: "?first ! p1 = ?lines ! p1" and n2: "?first ! p2 = ?lines ! p2"
    and n12: "take p2 ?lines ! p1 = ?lines ! p1"
    by simp_all
  from parsed_values_index [OF p2, of loads v2] assms(8)
  have a: "length (parsed_values loads (take p2 ?lines)) < length (parsed_values loads ?first)"
    and b: "parsed_values loads ?first ! length (parsed_values loads (take p2 ?lines)) = v2"
    by (simp_all only: t2 n2)
  from parsed_values_index [OF p1, of loads v1] assms(7)
  have c: "parsed_values loads ?first ! length (parsed_values loads (take p1 ?lines)) = v1"
    by (simp_all only: t1 n1)
  from parsed_values_index [OF p12, of loads v1] assms(7)
  have d: "length (parsed_values loads (take p1 ?lines)) < length (parsed_values loads (take p2 ?lines))"
    by (simp_all only: t12 n12)
  show ?thesis
    by (simp only: Let_def file_ok [OF assms(1,2,3)] a b c d simp_thms)
qed

theorem order_preserved_witness:
  "open_read (example_fs example_text) ''in.jsonl'' = Inr example_text
   \<and> \<not> write_denied (example_fs example_text) ''out.json''
   \<and> dump_completes example_encode
        (parsed_values example_loads (take (nat 5) (text_lines example_text)))
   \<and> (0::nat) < 3 \<and> 3 < length (text_lines example_text) \<and> int 3 < 5
   \<and> line_value example_loads (text_lines example_text ! 0) = Some (Num 1)
   \<and> line_value example_loads (text_lines example_text ! 3) = Some (Num 22)
   \<and> files (filesys (extract_first_n_objects example_loads example_encode
                (example_fs example_text) ''in.jsonl'' ''out.json'' 5)) ''out.json''
       = Some (json_text example_encode [Num 1, Num 22, Num 5])
   \<and> parsed_values example_loads (take (nat 5) (text_lines example_text))
       = [Num 1, Num 22, Num 5]
   \<and> length (parsed_values example_loads (take 0 (text_lines example_text))) = 0
   \<and> length (parsed_values example_loads (take 3 (text_lines example_text))) = 1"
  using order_preserved [where fs = "example_fs example_text"
      and input_file = "''in.jsonl''" and content = example_text and output_file = "''out.json''"
      and loads = example_loads and encode = example_encode and n = 5
      and ?p1.0 = 0 and ?p2.0 = 3 and ?v1.0 = "Num 1" and ?v2.0 = "Num 22"]
  by code_simp

text \<open>
  Claim C6. For a line among the first \<open>n\<close> that fails to parse: exactly one warning
  names the line's 1-based number, and it carries the parse error; the warnings are
  numbered by the position of their lines in the file, whatever failed before; the loop
  goes on, and the Sample it leaves is what it would be without the line, which is also the
  array in the output file when the write completes, the run then returning as usual.
  Every other error ends the run, with that error: an input that cannot be opened for
  reading, an output that cannot be opened for writing, a Sample that cannot be written.
  The parse failure is the only error that is recovered.
\<close>

theorem malformed_line_warned_and_skipped:
  assumes "open_read fs input_file = Inr content"
    and "p < length (text_lines content)" and "int p < n"
    and "loads (strip (text_lines content ! p)) = Inl e"
  shows "let out = extract_first_n_objects loads encode fs input_file output_file n;
             lines = text_lines content;
             others = take p lines @ drop (p + 1) (take (nat n) lines)
         in filter (\<lambda>m. warning_line m = Some (p + 1)) (stdout out) = [Warning (p + 1) e]
            \<and> filter is_warning (stdout out) =
                concat (map (\<lambda>i. case loads (strip (lines ! i)) of
                                    Inl e' \<Rightarrow> [Warning (i + 1) e'] | Inr v \<Rightarrow> [])
                            [0..<min (nat n) (length lines)])
            \<and> objects (scan loads n 0 lines \<lparr>objects = [], printed = [Extracting n input_file]\<rparr>)
                = parsed_values loads others
            \<and> Writing (length (parsed_values loads others)) output_file \<in> set (stdout out)
            \<and> (\<not> write_denied fs output_file \<and> dump_completes encode (parsed_values loads others)
                 \<longrightarrow> result out = Inr PyNone
                     \<and> files (filesys out) output_file
                         = Some (json_text encode (parsed_values loads others)))
            \<and> (\<forall>fs' input_file' output_file' n' content' err.
                  (open_read fs' input_file' = Inl err
                     \<longrightarrow> result (extract_first_n_objects loads encode fs' input_file' output_file' n')
                           = Inl err)
                  \<and> (open_read fs' input_file' = Inr content' \<and> write_denied fs' output_file'
                     \<longrightarrow> result (extract_first_n_objects loads encode fs' input_file' output_file' n')
                           = Inl (OSError output_file'))
                  \<and> (open_read fs' input_file' = Inr content' \<and> \<not> write_denied fs' output_file'
                       \<and> \<not> dump_completes encode
                             (parsed_values loads (take (nat n') (text_lines content')))
                     \<longrightarrow> result (extract_first_n_objects loads encode fs' input_file' output_file' n')
                           = Inl UnicodeEncodeError))"
proof -
  let ?out = "extract_first_n_objects loads encode fs input_file output_file n"
  let ?lines = "text_lines content"
  let ?first = "take (nat n) ?lines"
  let ?others = "take p ?lines @ drop (Suc p) ?first"
  from assms(3) have pn: "p < nat n"
    by (simp add: zless_nat_eq_int_zless)
  with assms(2) have p: "p < length ?first" and np: "?first ! p = ?lines ! p"
    and tp: "take p ?first = take p ?lines"
    by (simp_all add: min_def)
  from parsed_values_skip [OF p, of loads e] assms(4)
  have skip: "parsed_values loads ?first = parsed_values loads ?others"
    by (simp only: np tp)
  have num: "filter (\<lambda>m. warning_line m = Some (Suc p)) (stdout ?out) = [Warning (Suc p) e]"
    by (simp add: numbered_read [OF assms(1-3)] assms(4))
  have sample: "objects (scan loads n 0 ?lines \<lparr>objects = [], printed = [Extracting n input_file]\<rparr>)
        = parsed_values loads ?others"
    by (simp only: sample_read skip)
  have announced: "Writing (length (parsed_values loads ?others)) output_file \<in> set (stdout ?out)"
    using skip by (simp add: stdout_read [OF assms(1)])
  have written: "\<not> write_denied fs output_file \<and> dump_completes encode (parsed_values loads ?others)
        \<longrightarrow> result ?out = Inr PyNone
            \<and> files (filesys ?out) output_file = Some (json_text encode (parsed_values loads ?others))"
    using skip by (simp add: extract_ok [OF assms(1)])
  have others: "\<forall>fs' input_file' output_file' n' content' err.
      (open_read fs' input_file' = Inl err
         \<longrightarrow> result (extract_first_n_objects loads encode fs' input_file' output_file' n')
               = Inl err)
      \<and> (open_read fs' input_file' = Inr content' \<and> write_denied fs' output_file'
         \<longrightarrow> result (extract_first_n_objects loads encode fs' input_file' output_file' n')
               = Inl (OSError output_file'))
      \<and> (open_read fs' input_file' = Inr content' \<and> \<not> write_denied fs' output_file'
           \<and> \<not> dump_completes encode
                 (parsed_values loads (take (nat n') (text_lines content')))
         \<longrightarrow> result (extract_first_n_objects loads encode fs' input_file' output_file' n')
               = Inl UnicodeEncodeError)"
    by (intro allI) (rule extract_error_sources)
  show ?thesis
    using num sample announced written others
    by (simp only: Let_def warnings_read [OF assms(1)] Suc_eq_plus1 simp_thms)
qed

theorem malformed_line_warned_and_skipped_witness:
  "open_read (example_fs example_text) ''in.jsonl'' = Inr example_text
   \<and> 1 < length (text_lines example_text) \<and> int 1 < 4
   \<and> example_loads (strip (text_lines example_text ! 1))
       = Inl ''Expecting value: line 1 column 1 (char 0)''
   \<and> filter (\<lambda>m. warning_line m = Some (1 + 1))
        (stdout (extract_first_n_objects example_loads example_encode
                   (example_fs example_text) ''in.jsonl'' ''out.json'' 4))
       = [Warning 2 ''Expecting value: line 1 column 1 (char 0)'']
   \<and> filter is_warning
        (stdout (extract_first_n_objects example_loads example_encode
                   (example_fs example_text) ''in.jsonl'' ''out.json'' 4))
       = [Warning 2 ''Expecting value: line 1 column 1 (char 0)'',
          Warning 3 ''Expecting value: line 1 column 1 (char 0)'']
   \<and> render (Warning 2 ''Expecting value: line 1 column 1 (char 0)'')
       = ''Warning: Failed to parse line 2: Expecting value: line 1 column 1 (char 0)''
   \<and> objects (scan example_loads 4 0 (text_lines example_text)
                \<lparr>objects = [], printed = [Extracting 4 ''in.jsonl'']\<rparr>) = [Num 1, Num 22]
   \<and> \<not> write_denied (example_fs example_text) ''out.json''
   \<and> dump_completes example_encode [Num 1, Num 22]
   \<and> result (extract_first_n_objects example_loads example_encode
                (example_fs example_text) ''in.jsonl'' ''out.json'' 4) = Inr PyNone
   \<and> files (filesys (extract_first_n_objects example_loads example_encode
                (example_fs example_text) ''in.jsonl'' ''out.json'' 4)) ''out.json''
       = Some (json_text example_encode [Num 1, Num 22])"
proof -
  have h1: "open_read (example_fs example_text) ''in.jsonl'' = Inr example_text"
    by (simp add: open_read_def example_fs_def)
  have h2: "1 < length (text_lines example_text)"
    by code_simp
  have h3: "int 1 < 4"
    by simp
  have h4: "example_loads (strip (text_lines example_text ! 1))
            = Inl ''Expecting value: line 1 column 1 (char 0)''"
    by code_simp
  note t = malformed_line_warned_and_skipped [where fs = "example_fs example_text"
      and input_file = "''in.jsonl''" and content = example_text and output_file = "''out.json''"
      and loads = example_loads and encode = example_encode and n = 4 and p = 1
      and e = "''Expecting value: line 1 column 1 (char 0)''", OF h1 h2 h3 h4, unfolded Let_def]
  note c1 = t [THEN conjunct1]
    and c2 = t [THEN conjunct2, THEN conjunct1]
    and c3 = t [THEN conjunct2, THEN conjunct2, THEN conjunct1]
    and c5 = t [THEN conjunct2, THEN conjunct2, THEN conjunct2, THEN conjunct2, THEN conjunct1]
  from h1 h2 h3 h4 c1 c2 c3 c5 show ?thesis
    by code_simp
qed

text \<open>
  Claim C7. For every \<open>n \<le> 0\<close> and every input file the output file holds the empty
  array, the two characters \<open>[]\<close>, and no line is examined: whatever the lines and
  whatever the parser, the run prints its opening and its two closing messages and nothing
  else.
\<close>

theorem nothing_extracted_for_nonpositive_n:
  assumes "open_read fs input_file = Inr content" and "\<not> write_denied fs output_file"
    and "n \<le> 0"
  shows "let out = extract_first_n_objects loads encode fs input_file output_file n
         in result out = Inr PyNone
            \<and> files (filesys out) output_file = Some (json_text encode [])
            \<and> json_text encode [] = lit ''[]''
            \<and> stdout out = [Extracting n input_file, Writing 0 output_file, Done 0 output_file]"
proof -
  from assms(3) have none: "parsed_values loads (take (nat n) (text_lines content)) = []"
    by (simp add: parsed_values_def)
  then have "dump_completes encode (parsed_values loads (take (nat n) (text_lines content)))"
    by (simp only: empty_array)
  from extract_ok [OF assms(1,2) this] assms(3) show ?thesis
    by (simp add: Let_def parsed_values_def empty_array scan_messages_def)
qed

theorem nothing_extracted_for_nonpositive_n_witness:
  "open_read (example_fs example_text) ''in.jsonl'' = Inr example_text
   \<and> \<not> write_denied (example_fs example_text) ''out.json''
   \<and> (0::int) \<le> 0
   \<and> text_lines example_text \<noteq> []
   \<and> files (filesys (extract_first_n_objects example_loads example_encode
                (example_fs example_text) ''in.jsonl'' ''out.json'' 0)) ''out.json''
       = Some (lit ''[]'')
   \<and> stdout (extract_first_n_objects example_loads example_encode
                (example_fs example_text) ''in.jsonl'' ''out.json'' 0)
       = [Extracting 0 ''in.jsonl'', Writing 0 ''out.json'', Done 0 ''out.json'']"
  using nothing_extracted_for_nonpositive_n [where fs = "example_fs example_text"
      and input_file = "''in.jsonl''" and content = example_text and output_file = "''out.json''"
      and loads = example_loads and encode = example_encode and n = 0]
  by code_simp

text \<open>
  Claim C8. When the input file cannot be opened, the error goes to the caller, the file
  system is left as it was, and only the opening message has been printed.
\<close>

theorem read_error_propagates_before_write:
  assumes "open_read fs input_file = Inl err"
  shows "let out = extract_first_n_objects loads encode fs input_file output_file n
         in result out = Inl err
            \<and> filesys out = fs
            \<and> stdout out = [Extracting n input_file]"
  using assms by (simp add: extract_first_n_objects_def)

theorem read_error_propagates_before_write_witness:
  "open_read (example_fs example_text) ''missing.jsonl'' = Inl (OSError ''missing.jsonl'')
   \<and> result (extract_first_n_objects example_loads example_encode
                (example_fs example_text) ''missing.jsonl'' ''out.json'' 3)
       = Inl (OSError ''missing.jsonl'')
   \<and> files (filesys (extract_first_n_objects example_loads example_encode
                (example_fs example_text) ''missing.jsonl'' ''out.json'' 3)) ''out.json'' = None"
proof -
  have h: "open_read (example_fs example_text) ''missing.jsonl'' = Inl (OSError ''missing.jsonl'')"
    by (simp add: open_read_def example_fs_def)
  from read_error_propagates_before_write [OF h, of example_loads example_encode "''out.json''" 3]
  have "result (extract_first_n_objects example_loads example_encode
                (example_fs example_text) ''missing.jsonl'' ''out.json'' 3)
          = Inl (OSError ''missing.jsonl'')
        \<and> filesys (extract_first_n_objects example_loads example_encode
                (example_fs example_text) ''missing.jsonl'' ''out.json'' 3)
          = example_fs example_text"
    by (simp only: Let_def)
  then show ?thesis
    using h by (simp add: example_fs_def)
qed

text \<open>
  Claim C10. A line among the first \<open>n\<close> that is empty or all whitespace, by any of the
  characters \<open>str.strip\<close> removes, is a parse failure: stripped it is the empty
  document, which \<open>json.loads\<close> rejects (the hypothesis on the parameter \<open>loads\<close>); a
  warning with its 1-based number is printed, nothing is added to the Sample, and the line
  counts among the lines examined.
\<close>

theorem blank_line_is_parse_failure:
  assumes "open_read fs input_file = Inr content"
    and "p < length (text_lines content)" and "int p < n"
    and "list_all isspace (text_lines content ! p)"
    and "loads [] = Inl e"
  shows "let out = extract_first_n_objects loads encode fs input_file output_file n;
             lines = text_lines content;
             others = take p lines @ drop (p + 1) (take (nat n) lines)
         in strip (lines ! p) = []
            \<and> line_value loads (lines ! p) = None
            \<and> filter (\<lambda>m. warning_line m = Some (p + 1)) (stdout out) = [Warning (p + 1) e]
            \<and> objects (scan loads n 0 lines \<lparr>objects = [], printed = [Extracting n input_file]\<rparr>)
                = parsed_values loads others
            \<and> length (parsed_values loads (take (nat n) lines))
                + length (filter is_warning (stdout out)) = min (nat n) (length lines)
            \<and> (\<not> write_denied fs output_file \<and> dump_completes encode (parsed_values loads others)
                 \<longrightarrow> files (filesys out) output_file
                       = Some (json_text encode (parsed_values loads others)))"
proof -
  let ?out = "extract_first_n_objects loads encode fs input_file output_file n"
  let ?lines = "text_lines content"
  let ?first = "take (nat n) ?lines"
  let ?others = "take p ?lines @ drop (Suc p) ?first"
  have s: "strip (?lines ! p) = []"
    by (rule strip_whitespace [OF assms(4)])
  with assms(5) have fail: "loads (strip (?lines ! p)) = Inl e"
    by simp
  then have v: "line_value loads (?lines ! p) = None"
    by (simp add: line_value_def)
  from assms(3) have pn: "p < nat n"
    by (simp add: zless_nat_eq_int_zless)
  with assms(2) have p: "p < length ?first" and np: "?first ! p = ?lines ! p"
    and tp: "take p ?first = take p ?lines"
    by (simp_all add: min_def)
  from parsed_values_skip [OF p, of loads e] fail
  have skip: "parsed_values loads ?first = parsed_values loads ?others"
    by (simp only: np tp)
  have num: "filter (\<lambda>m. warning_line m = Some (Suc p)) (stdout ?out) = [Warning (Suc p) e]"
    by (simp add: numbered_read [OF assms(1-3)] fail)
  have sample: "objects (scan loads n 0 ?lines \<lparr>objects = [], printed = [Extracting n input_file]\<rparr>)
        = parsed_values loads ?others"
    by (simp only: sample_read skip)
  have slots: "length (parsed_values loads ?first)
        + length (filter is_warning (scan_messages loads 0 ?first))
        = min (nat n) (length ?lines)"
    by (simp only: slots_ok length_take min.commute)
  have total: "length (parsed_values loads ?first) + length (filter is_warning (stdout ?out))
        = min (nat n) (length ?lines)"
    using slots by (simp only: count_warnings_read [OF assms(1)])
  have written: "\<not> write_denied fs output_file \<and> dump_completes encode (parsed_values loads ?others)
        \<longrightarrow> files (filesys ?out) output_file = Some (json_text encode (parsed_values loads ?others))"
    using skip by (simp add: file_ok [OF assms(1)])
  show ?thesis
    using s v num sample total written
    by (simp only: Let_def Suc_eq_plus1 simp_thms)
qed

theorem blank_line_is_parse_failure_witness:
  "open_read (example_fs blank_text) ''in.jsonl'' = Inr blank_text
   \<and> 1 < length (text_lines blank_text) \<and> int 1 < 3
   \<and> text_lines blank_text ! 1 = [12288, 160, 9, 10]
   \<and> list_all isspace (text_lines blank_text ! 1)
   \<and> example_loads [] = Inl ''Expecting value: line 1 column 1 (char 0)''
   \<and> filter (\<lambda>m. warning_line m = Some 2)
        (stdout (extract_first_n_objects example_loads example_encode
                   (example_fs blank_text) ''in.jsonl'' ''out.json'' 3))
       = [Warning 2 ''Expecting value: line 1 column 1 (char 0)'']
   \<and> objects (scan example_loads 3 0 (text_lines blank_text)
                \<lparr>objects = [], printed = [Extracting 3 ''in.jsonl'']\<rparr>) = [Num 1, Num 22]
   \<and> \<not> write_denied (example_fs blank_text) ''out.json''
   \<and> dump_completes example_encode [Num 1, Num 22]
   \<and> files (filesys (extract_first_n_objects example_loads example_encode
                (example_fs blank_text) ''in.jsonl'' ''out.json'' 3)) ''out.json''
       = Some (lit ''[\<newline>  1,\<newline>  22\<newline>]'')"
  using blank_line_is_parse_failure [where fs = "example_fs blank_text"
      and input_file = "''in.jsonl''" and content = blank_text and output_file = "''out.json''"
      and loads = example_loads and encode = example_encode and n = 3 and p = 1
      and e = "''Expecting value: line 1 column 1 (char 0)''"]
  by code_simp

end
